theory Spec2Isabelle
  imports Main
begin

section \<open>Intrusive doubly linked list (package linkedlist)\<close>

text \<open>
  Nodes live in a store and are named by their address (a natural number). A
  \<open>linkedListImpl\<close> is represented by the sequence of node addresses met when walking
  \<open>Next\<close> from the dummy head back to the dummy head; the dummy head itself is not in
  the sequence and is written \<open>None\<close> where the code hands it out as a node
  (\<open>First\<close>/\<open>Last\<close> of an empty list, \<open>Prev\<close> of the first node).
  Go's \<open>int\<close> is modelled as \<open>int\<close>: the counters of this program grow by one per
  call, so the 64-bit bound is out of reach of any run.
\<close>

definition First :: "nat list \<Rightarrow> nat option" where
  "First xs = (case xs of [] \<Rightarrow> None | x # _ \<Rightarrow> Some x)"

definition Last :: "nat list \<Rightarrow> nat option" where
  "Last xs = (if xs = [] then None else Some (last xs))"

fun insertBefore :: "nat \<Rightarrow> nat \<Rightarrow> nat list \<Rightarrow> nat list" where
  "insertBefore node another [] = []"
| "insertBefore node another (x # xs) =
     (if x = another then node # x # xs else x # insertBefore node another xs)"

text \<open>\<open>PutNodeBeforeAnotherNode\<close>: the second argument is a node of the list or its dummy
  head (\<open>None\<close>); before the dummy head is the end of the list.\<close>

definition PutNodeBeforeAnotherNode :: "nat \<Rightarrow> nat option \<Rightarrow> nat list \<Rightarrow> nat list" where
  "PutNodeBeforeAnotherNode node anotherNode xs =
     (case anotherNode of None \<Rightarrow> xs @ [node] | Some m \<Rightarrow> insertBefore node m xs)"

definition PushFront :: "nat \<Rightarrow> nat list \<Rightarrow> nat list" where
  "PushFront node xs = PutNodeBeforeAnotherNode node (First xs) xs"

definition PushBack :: "nat \<Rightarrow> nat list \<Rightarrow> nat list" where
  "PushBack node xs = PutNodeBeforeAnotherNode node None xs"

definition RemoveNode :: "nat \<Rightarrow> nat list \<Rightarrow> nat list" where
  "RemoveNode node xs = remove1 node xs"

text \<open>\<open>node.Prev\<close> for a node linked into the list \<open>xs\<close>; \<open>None\<close> is the dummy head.\<close>

fun Prev :: "nat list \<Rightarrow> nat \<Rightarrow> nat option" where
  "Prev (x # y # ys) node = (if y = node then Some x else Prev (y # ys) node)"
| "Prev _ node = None"

text \<open>\<open>linkedlist.New(node)\<close>: a fresh list whose only element is \<open>node\<close>.\<close>

definition NewList :: "nat \<Rightarrow> nat list" where
  "NewList node = [node]"

section \<open>LFU cache (package lfu)\<close>

datatype error = ErrKeyNotFound

text \<open>Run-time panics. \<open>SentinelAccess\<close> marks the one place where the code would go on
  to use the dummy head of an inner list as a cache entry; the embedding stops there.\<close>

datatype abort = NilDereference | InvalidCapacity | SentinelAccess

definition DefaultCapacity :: int where
  "DefaultCapacity = 5"

record ('k, 'v) CacheItem =
  item_value :: 'v
  item_key :: 'k
  item_frequency :: int

record FrequencyGroup =
  group_frequency :: int
  elementsList :: "nat list"
  group_size :: int

text \<open>
  \<open>cacheImpl\<close> with the two node stores it points into. \<open>freqGroupsList\<close> is an
  interface value: \<open>None\<close> is the nil interface of a cache that never stored anything.
  Unallocated addresses hold Go's zero value; the zero value of the key and value types
  is the \<open>0\<close> of class \<open>zero\<close>.
\<close>

record ('k, 'v) cacheImpl =
  freqToFreqGroupNode :: "int \<rightharpoonup> nat"
  freqGroupsList :: "nat list option"
  keyToCacheItem :: "'k \<rightharpoonup> nat"
  capacity :: int
  cache_size :: int
  freeNodesOfFreqGroups :: "nat list"
  itemNodes :: "nat \<Rightarrow> ('k, 'v) CacheItem"
  groupNodes :: "nat \<Rightarrow> FrequencyGroup"
  nextItemNode :: nat
  nextGroupNode :: nat

definition zeroItem :: "('k::zero, 'v::zero) CacheItem" where
  "zeroItem = \<lparr>item_value = 0, item_key = 0, item_frequency = 0\<rparr>"

definition zeroGroup :: FrequencyGroup where
  "zeroGroup = \<lparr>group_frequency = 0, elementsList = [], group_size = 0\<rparr>"

definition emptyCache :: "int \<Rightarrow> ('k::zero, 'v::zero) cacheImpl" where
  "emptyCache cacheCapacity =
     \<lparr>freqToFreqGroupNode = Map.empty, freqGroupsList = None, keyToCacheItem = Map.empty,
      capacity = cacheCapacity, cache_size = 0, freeNodesOfFreqGroups = [],
      itemNodes = (\<lambda>_. zeroItem), groupNodes = (\<lambda>_. zeroGroup),
      nextItemNode = 0, nextGroupNode = 0\<rparr>"

text \<open>\<open>New(capacity ...int)\<close>: the variadic argument is the list of values passed.\<close>

definition New :: "int list \<Rightarrow> abort + ('k::zero, 'v::zero) cacheImpl" where
  "New capacity_args =
     (case capacity_args of
        [] \<Rightarrow> Inr (emptyCache DefaultCapacity)
      | cacheCapacity # _ \<Rightarrow>
          if length capacity_args > 2 then Inl InvalidCapacity
          else if cacheCapacity < 0 then Inl InvalidCapacity
          else Inr (emptyCache cacheCapacity))"

subsection \<open>Store updates\<close>

definition updGroup ::
  "nat \<Rightarrow> (FrequencyGroup \<Rightarrow> FrequencyGroup) \<Rightarrow> ('k, 'v) cacheImpl \<Rightarrow> ('k, 'v) cacheImpl" where
  "updGroup g f l = l\<lparr>groupNodes := (groupNodes l)(g := f (groupNodes l g))\<rparr>"

definition updItem ::
  "nat \<Rightarrow> (('k, 'v) CacheItem \<Rightarrow> ('k, 'v) CacheItem) \<Rightarrow> ('k, 'v) cacheImpl \<Rightarrow> ('k, 'v) cacheImpl" where
  "updItem a f l = l\<lparr>itemNodes := (itemNodes l)(a := f (itemNodes l a))\<rparr>"

text \<open>\<open>linkedlist.RemoveNode(cacheItemNode)\<close> unlinks the node from the inner list it is
  linked into, whichever group owns that list.\<close>

definition RemoveItemNode :: "nat \<Rightarrow> ('k, 'v) cacheImpl \<Rightarrow> ('k, 'v) cacheImpl" where
  "RemoveItemNode a l =
     l\<lparr>groupNodes := (\<lambda>g. (groupNodes l g)\<lparr>elementsList := RemoveNode a (elementsList (groupNodes l g))\<rparr>)\<rparr>"

definition createFrequencyGroupNode ::
  "nat \<Rightarrow> int \<Rightarrow> ('k, 'v) cacheImpl \<Rightarrow> nat \<times> ('k, 'v) cacheImpl" where
  "createFrequencyGroupNode cacheItemNode frequency l =
     (let frequencyGroupNode = nextGroupNode l;
          l1 = l\<lparr>groupNodes := (groupNodes l)(frequencyGroupNode :=
                    \<lparr>group_frequency = frequency, elementsList = NewList cacheItemNode,
                     group_size = 1\<rparr>),
                 nextGroupNode := Suc frequencyGroupNode\<rparr>;
          l2 = updItem cacheItemNode (\<lambda>c. c\<lparr>item_frequency := frequency\<rparr>) l1
      in (frequencyGroupNode, l2))"

definition getNewFrequencyGroupNode ::
  "nat \<Rightarrow> int \<Rightarrow> ('k, 'v) cacheImpl \<Rightarrow> nat \<times> ('k, 'v) cacheImpl" where
  "getNewFrequencyGroupNode cacheItemNode newFrequency l =
     (if freeNodesOfFreqGroups l = [] then createFrequencyGroupNode cacheItemNode newFrequency l
      else
        let newFrequencyGroupNode = last (freeNodesOfFreqGroups l);
            l1 = l\<lparr>freeNodesOfFreqGroups := butlast (freeNodesOfFreqGroups l)\<rparr>;
            l2 = updGroup newFrequencyGroupNode
                   (\<lambda>G. G\<lparr>elementsList := PushFront cacheItemNode (elementsList G)\<rparr>) l1;
            l3 = updGroup newFrequencyGroupNode (\<lambda>G. G\<lparr>group_size := 1\<rparr>) l2;
            l4 = updGroup newFrequencyGroupNode (\<lambda>G. G\<lparr>group_frequency := newFrequency\<rparr>) l3;
            l5 = updItem cacheItemNode (\<lambda>c. c\<lparr>item_frequency := newFrequency\<rparr>) l4
        in (newFrequencyGroupNode, l5))"

subsection \<open>updateFreqAndMoveCacheItemNode\<close>

definition updateFreqAndMoveCacheItemNode ::
  "nat \<Rightarrow> ('k, 'v) cacheImpl \<Rightarrow> abort + ('k, 'v) cacheImpl" where
  "updateFreqAndMoveCacheItemNode cacheItemNode l =
     (let currentFrequency = item_frequency (itemNodes l cacheItemNode) in
      case freqToFreqGroupNode l currentFrequency of
        None \<Rightarrow> Inl NilDereference
      | Some currentFrequencyGroupNode \<Rightarrow>
         (case freqGroupsList l of
            None \<Rightarrow> Inl NilDereference
          | Some groups \<Rightarrow>
             let newFrequency = currentFrequency + 1;
                 l1 = updGroup currentFrequencyGroupNode (\<lambda>G. G\<lparr>group_size := group_size G - 1\<rparr>) l;
                 l2 = (if group_size (groupNodes l1 currentFrequencyGroupNode) = 0
                       then l1\<lparr>freqToFreqGroupNode := (freqToFreqGroupNode l1)(currentFrequency := None)\<rparr>
                       else l1);
                 greaterNode = Prev groups currentFrequencyGroupNode;
                 greaterFrequencyGroup =
                   (case greaterNode of None \<Rightarrow> zeroGroup | Some p \<Rightarrow> groupNodes l2 p)
             in if group_frequency greaterFrequencyGroup = newFrequency then
                  (case greaterNode of
                     None \<Rightarrow> Inl NilDereference
                   | Some p \<Rightarrow>
                      let l3 = RemoveItemNode cacheItemNode l2;
                          l4 = updGroup p
                                 (\<lambda>G. G\<lparr>elementsList := PushFront cacheItemNode (elementsList G)\<rparr>) l3;
                          l5 = updGroup p (\<lambda>G. G\<lparr>group_size := group_size G + 1\<rparr>) l4;
                          l6 = updItem cacheItemNode
                                 (\<lambda>c. c\<lparr>item_frequency := group_frequency greaterFrequencyGroup\<rparr>) l5
                      in if group_size (groupNodes l6 currentFrequencyGroupNode) = 0
                         then Inr (l6\<lparr>freqGroupsList :=
                                        Some (RemoveNode currentFrequencyGroupNode groups),
                                      freeNodesOfFreqGroups :=
                                        freeNodesOfFreqGroups l6 @ [currentFrequencyGroupNode]\<rparr>)
                         else Inr l6)
                else if group_size (groupNodes l2 currentFrequencyGroupNode) = 0 then
                  (let l3 = updGroup currentFrequencyGroupNode
                              (\<lambda>G. G\<lparr>group_frequency := newFrequency\<rparr>) l2;
                       l4 = l3\<lparr>freqToFreqGroupNode :=
                                 (freqToFreqGroupNode l3)(newFrequency \<mapsto> currentFrequencyGroupNode)\<rparr>;
                       l5 = updGroup currentFrequencyGroupNode
                              (\<lambda>G. G\<lparr>group_size := group_size G + 1\<rparr>) l4;
                       l6 = updItem cacheItemNode (\<lambda>c. c\<lparr>item_frequency := newFrequency\<rparr>) l5
                   in Inr l6)
                else
                  (let l3 = RemoveItemNode cacheItemNode l2;
                       (newNode, l4) = getNewFrequencyGroupNode cacheItemNode newFrequency l3;
                       l5 = l4\<lparr>freqToFreqGroupNode := (freqToFreqGroupNode l4)(newFrequency \<mapsto> newNode)\<rparr>
                   in Inr (l5\<lparr>freqGroupsList :=
                                  Some (PutNodeBeforeAnotherNode newNode
                                          (Some currentFrequencyGroupNode) groups)\<rparr>))))"

subsection \<open>The public operations\<close>

text \<open>Every operation takes the cache and returns its Go results together with the cache
  it leaves behind, or the panic that ends the call.\<close>

definition Get ::
  "'k \<Rightarrow> ('k::zero, 'v::zero) cacheImpl \<Rightarrow> abort + (('v \<times> error option) \<times> ('k, 'v) cacheImpl)" where
  "Get key l =
     (case keyToCacheItem l key of
        Some cacheItem \<Rightarrow>
          (let v = item_value (itemNodes l cacheItem) in
           case updateFreqAndMoveCacheItemNode cacheItem l of
             Inl p \<Rightarrow> Inl p
           | Inr l1 \<Rightarrow> Inr ((v, None), l1))
      | None \<Rightarrow> Inr ((0, Some ErrKeyNotFound), l))"

definition Put ::
  "'k \<Rightarrow> 'v \<Rightarrow> ('k, 'v) cacheImpl \<Rightarrow> abort + ('k, 'v) cacheImpl" where
  "Put key v l =
     (case keyToCacheItem l key of
        Some cacheItem \<Rightarrow>
          (case updateFreqAndMoveCacheItemNode cacheItem l of
             Inl p \<Rightarrow> Inl p
           | Inr l1 \<Rightarrow> Inr (updItem cacheItem (\<lambda>c. c\<lparr>item_value := v\<rparr>) l1))
      | None \<Rightarrow>
          if cache_size l = capacity l then
            (case freqGroupsList l of
               None \<Rightarrow> Inl NilDereference
             | Some groups \<Rightarrow>
                (case Last groups of
                   None \<Rightarrow> Inl NilDereference
                 | Some minFrequencyGroup \<Rightarrow>
                    (case Last (elementsList (groupNodes l minFrequencyGroup)) of
                       None \<Rightarrow> Inl SentinelAccess
                     | Some cacheItemNode \<Rightarrow>
                        let l1 = l\<lparr>keyToCacheItem :=
                                     (keyToCacheItem l)(item_key (itemNodes l cacheItemNode) := None)\<rparr>;
                            l2 = updItem cacheItemNode (\<lambda>c. c\<lparr>item_key := key\<rparr>) l1;
                            l3 = updItem cacheItemNode (\<lambda>c. c\<lparr>item_value := v\<rparr>) l2;
                            l4 =
                              (if group_frequency (groupNodes l3 minFrequencyGroup) \<noteq> 1 then
                                 (if group_size (groupNodes l3 minFrequencyGroup) = 1 then
                                    (let m1 = updGroup minFrequencyGroup
                                                (\<lambda>G. G\<lparr>group_frequency := 1\<rparr>) l3
                                     in m1\<lparr>freqToFreqGroupNode :=
                                             (freqToFreqGroupNode m1)(1 \<mapsto> minFrequencyGroup)\<rparr>)
                                  else
                                    (let m1 = updGroup minFrequencyGroup
                                                (\<lambda>G. G\<lparr>group_size := group_size G - 1\<rparr>) l3;
                                         m2 = RemoveItemNode cacheItemNode m1;
                                         (newNode, m3) = getNewFrequencyGroupNode cacheItemNode 1 m2;
                                         m4 = m3\<lparr>freqToFreqGroupNode :=
                                                   (freqToFreqGroupNode m3)(1 \<mapsto> newNode)\<rparr>
                                     in m4\<lparr>freqGroupsList := Some (PushBack newNode groups)\<rparr>))
                               else if group_size (groupNodes l3 minFrequencyGroup) \<noteq> 1 then
                                 (let m1 = RemoveItemNode cacheItemNode l3;
                                      m2 = updGroup minFrequencyGroup
                                             (\<lambda>G. G\<lparr>elementsList :=
                                                      PushFront cacheItemNode (elementsList G)\<rparr>) m1
                                  in updItem cacheItemNode
                                       (\<lambda>c. c\<lparr>item_frequency :=
                                                group_frequency (groupNodes m2 minFrequencyGroup)\<rparr>) m2)
                               else l3)
                        in Inr (l4\<lparr>keyToCacheItem := (keyToCacheItem l4)(key \<mapsto> cacheItemNode)\<rparr>))))
          else
            (let cacheItemNode = nextItemNode l;
                 l1 = l\<lparr>itemNodes := (itemNodes l)(cacheItemNode :=
                            \<lparr>item_value = v, item_key = key, item_frequency = 0\<rparr>),
                        nextItemNode := Suc cacheItemNode\<rparr>
             in if cache_size l1 = 0 then
                  (let (unitFrequencyGroupNode, l2) = createFrequencyGroupNode cacheItemNode 1 l1;
                       l3 = l2\<lparr>freqGroupsList := Some (NewList unitFrequencyGroupNode)\<rparr>;
                       l4 = l3\<lparr>freqToFreqGroupNode :=
                                 (freqToFreqGroupNode l3)(1 \<mapsto> unitFrequencyGroupNode)\<rparr>;
                       l5 = l4\<lparr>cache_size := cache_size l4 + 1\<rparr>
                   in Inr (l5\<lparr>keyToCacheItem := (keyToCacheItem l5)(key \<mapsto> cacheItemNode)\<rparr>))
                else
                  (case freqGroupsList l1 of
                     None \<Rightarrow> Inl NilDereference
                   | Some groups \<Rightarrow>
                      let lastFrequency =
                            (case Last groups of
                               None \<Rightarrow> group_frequency zeroGroup
                             | Some g \<Rightarrow> group_frequency (groupNodes l1 g));
                          (unitFrequencyGroupNode, l3) =
                            (if lastFrequency = 1 then
                               (case Last groups of
                                  None \<Rightarrow> (0, l1)
                                | Some lastListElement \<Rightarrow>
                                   let m1 = updItem cacheItemNode
                                              (\<lambda>c. c\<lparr>item_frequency :=
                                                       group_frequency (groupNodes l1 lastListElement)\<rparr>) l1;
                                       m2 = updGroup lastListElement
                                              (\<lambda>G. G\<lparr>elementsList :=
                                                       PushFront cacheItemNode (elementsList G)\<rparr>) m1
                                   in (lastListElement,
                                       updGroup lastListElement
                                         (\<lambda>G. G\<lparr>group_size := group_size G + 1\<rparr>) m2))
                             else
                               (let (newNode, m1) = getNewFrequencyGroupNode cacheItemNode 1 l1
                                in (newNode, m1\<lparr>freqGroupsList := Some (PushBack newNode groups)\<rparr>)));
                          l4 = l3\<lparr>freqToFreqGroupNode :=
                                    (freqToFreqGroupNode l3)(1 \<mapsto> unitFrequencyGroupNode)\<rparr>;
                          l5 = l4\<lparr>cache_size := cache_size l4 + 1\<rparr>
                      in Inr (l5\<lparr>keyToCacheItem := (keyToCacheItem l5)(key \<mapsto> cacheItemNode)\<rparr>))))"

text \<open>\<open>All\<close>: the sequence the iterator yields to a consumer that never stops it; a
  consumer that stops early sees a prefix.\<close>

definition groupEntries :: "('k, 'v) cacheImpl \<Rightarrow> nat \<Rightarrow> ('k \<times> 'v) list" where
  "groupEntries l g =
     map (\<lambda>a. (item_key (itemNodes l a), item_value (itemNodes l a)))
         (elementsList (groupNodes l g))"

definition All ::
  "('k, 'v) cacheImpl \<Rightarrow> abort + (('k \<times> 'v) list \<times> ('k, 'v) cacheImpl)" where
  "All l =
     (if cache_size l = 0 then Inr ([], l)
      else case freqGroupsList l of
             None \<Rightarrow> Inl NilDereference
           | Some groups \<Rightarrow> Inr (concat (map (groupEntries l) groups), l))"

definition Size :: "('k, 'v) cacheImpl \<Rightarrow> int \<times> ('k, 'v) cacheImpl" where
  "Size l = (cache_size l, l)"

definition Capacity :: "('k, 'v) cacheImpl \<Rightarrow> int \<times> ('k, 'v) cacheImpl" where
  "Capacity l = (capacity l, l)"

definition GetKeyFrequency ::
  "'k \<Rightarrow> ('k, 'v) cacheImpl \<Rightarrow> (int \<times> error option) \<times> ('k, 'v) cacheImpl" where
  "GetKeyFrequency key l =
     (case keyToCacheItem l key of
        None \<Rightarrow> ((0, Some ErrKeyNotFound), l)
      | Some element \<Rightarrow> ((item_frequency (itemNodes l element), None), l))"

subsection \<open>Sequences of calls\<close>

datatype ('k, 'v) call =
  CallGet 'k | CallPut 'k 'v | CallGetKeyFrequency 'k | CallAll | CallSize | CallCapacity

definition step ::
  "('k::zero, 'v::zero) call \<Rightarrow> ('k, 'v) cacheImpl \<Rightarrow> abort + ('k, 'v) cacheImpl" where
  "step c l =
     (case c of
        CallGet k \<Rightarrow> (case Get k l of Inl p \<Rightarrow> Inl p | Inr (_, l1) \<Rightarrow> Inr l1)
      | CallPut k v \<Rightarrow> Put k v l
      | CallGetKeyFrequency k \<Rightarrow> Inr (snd (GetKeyFrequency k l))
      | CallAll \<Rightarrow> (case All l of Inl p \<Rightarrow> Inl p | Inr (_, l1) \<Rightarrow> Inr l1)
      | CallSize \<Rightarrow> Inr (snd (Size l))
      | CallCapacity \<Rightarrow> Inr (snd (Capacity l)))"

fun run ::
  "('k::zero, 'v::zero) call list \<Rightarrow> ('k, 'v) cacheImpl \<Rightarrow> abort + ('k, 'v) cacheImpl" where
  "run [] l = Inr l"
| "run (c # cs) l = (case step c l of Inl p \<Rightarrow> Inl p | Inr l1 \<Rightarrow> run cs l1)"

text \<open>A cache built by \<open>New\<close> with one capacity value and then driven by a sequence of
  calls, and what can be observed of it afterwards.\<close>

definition afterCalls ::
  "int \<Rightarrow> ('k::zero, 'v::zero) call list \<Rightarrow> abort + ('k, 'v) cacheImpl" where
  "afterCalls cap calls = (case New [cap] of Inl p \<Rightarrow> Inl p | Inr l0 \<Rightarrow> run calls l0)"

definition frequencyOf :: "'k \<Rightarrow> ('k, 'v) cacheImpl \<Rightarrow> int \<times> error option" where
  "frequencyOf key l = fst (GetKeyFrequency key l)"

definition entryFrequencies :: "('k, 'v) cacheImpl \<Rightarrow> nat \<Rightarrow> int list" where
  "entryFrequencies l g = map (\<lambda>a. item_frequency (itemNodes l a)) (elementsList (groupNodes l g))"

definition activeGroups :: "('k, 'v) cacheImpl \<Rightarrow> nat list" where
  "activeGroups l = (case freqGroupsList l of None \<Rightarrow> [] | Some groups \<Rightarrow> groups)"

text \<open>For each active group, front to back: its frequency, the group the frequency index
  gives for that frequency, the group itself, and the frequency fields of its entries.\<close>

definition groupFrequencies ::
  "('k, 'v) cacheImpl \<Rightarrow> (int \<times> nat option \<times> nat \<times> int list) list" where
  "groupFrequencies l =
     map (\<lambda>g. (group_frequency (groupNodes l g),
                freqToFreqGroupNode l (group_frequency (groupNodes l g)), g,
                entryFrequencies l g))
         (activeGroups l)"

section \<open>The representation invariant of the cache\<close>

















subsection \<open>Touches\<close>








text \<open>Keys for the examples; the zero value stands for the empty name.\<close>

datatype letter = NoLetter | LetterA | LetterB | LetterC

instantiation letter :: zero
begin
definition zero_letter_def: "0 = NoLetter"
instance ..
end

section \<open>Crawler (package crawler)\<close>

text \<open>
  The crawler runs goroutines; what is modelled here is the sequential code each of them
  executes and the state they share through the mutex-protected error holder. A run of
  the holder is the sequence of \<open>addError\<close> calls in the order the mutex serialises them.
  Go's \<open>error\<close> values are \<open>'e option\<close> (\<open>None\<close> is \<open>nil\<close>); a call either returns or
  panics with a payload, which is an \<open>error\<close> value or anything else.
\<close>

datatype 'x goerror = NilPointerDereference | Other 'x

datatype ('e, 'p) payload = ErrorPayload 'e | OtherPayload 'p

datatype ('a, 'e, 'p) outcome = Returns 'a | Panics "('e, 'p) payload"

record 'e atomicErr =
  err :: "'e option"

definition addError :: "'e option \<Rightarrow> 'e atomicErr \<Rightarrow> 'e atomicErr" where
  "addError e a = (if err a = None then a\<lparr>err := e\<rparr> else a)"

text \<open>\<open>protect\<close>: the wrapped function works on the holder it closes over; the named
  result of the wrapper keeps its zero value when the function panics.\<close>

definition protect ::
  "(string \<Rightarrow> 'e atomicErr \<Rightarrow> ('a::zero, 'e, 'p) outcome \<times> 'e atomicErr) \<Rightarrow>
   string \<Rightarrow> 'e atomicErr \<Rightarrow> ('a, 'e, 'p) outcome \<times> 'e atomicErr" where
  "protect fn arg aE =
     (case fn arg aE of
        (Returns r, aE1) \<Rightarrow> (Returns r, aE1)
      | (Panics recovered, aE1) \<Rightarrow>
          (case recovered of
             ErrorPayload e \<Rightarrow> (Returns 0, addError (Some e) aE1)
           | OtherPayload _ \<Rightarrow> (Returns 0, aE1)))"

definition bufferSize :: nat where
  "bufferSize = 512"

text \<open>
  The function \<open>Collect\<close> hands to \<open>Transform\<close>, before \<open>protect\<close> wraps it. The file
  system and the JSON decoder are parameters: \<open>fsOpen\<close> returns a handle (or nil) and an
  error, \<open>fileRead\<close> the bytes one \<open>Read\<close> into a buffer of the given size delivers and
  its error, \<open>jsonUnmarshal\<close> the decode target as the decoder leaves it and its error.
  The deferred \<open>f.Close()\<close> runs last and panics on a nil handle. The per-path mutex
  table only orders concurrent readers and is left out.
\<close>

definition readFile ::
  "(string \<Rightarrow> 'f option \<times> 'x goerror option) \<Rightarrow>
   ('f \<Rightarrow> nat \<Rightarrow> string \<times> 'x goerror option) \<Rightarrow>
   (string \<Rightarrow> 'T \<Rightarrow> 'T \<times> 'x goerror option) \<Rightarrow>
   string \<Rightarrow> 'x goerror atomicErr \<Rightarrow> ('T::zero, 'x goerror, 'p) outcome \<times> 'x goerror atomicErr" where
  "readFile fsOpen fileRead jsonUnmarshal current aE =
     (let (f, openErr) = fsOpen current;
          result = 0;
          (body, aE1) =
            (if openErr \<noteq> None then (Returns result, addError openErr aE)
             else
               (case f of
                  None \<Rightarrow> (Panics (ErrorPayload NilPointerDereference), aE)
                | Some file \<Rightarrow>
                   let (content, readErr) = fileRead file bufferSize in
                   if readErr \<noteq> None then (Returns result, addError readErr aE)
                   else
                     let (result1, er) = jsonUnmarshal content result in
                     if er \<noteq> None then (Returns result1, addError er aE)
                     else (Returns result1, aE)))
      in case f of
           None \<Rightarrow> (Panics (ErrorPayload NilPointerDereference), aE1)
         | Some _ \<Rightarrow> (body, aE1))"

text \<open>The end of \<open>Collect\<close>, once the result channel is closed: \<open>resultValues\<close> are
  the partial results in the order they arrived, \<open>ctxErr\<close> is \<open>ctx.Err()\<close>.\<close>

definition CollectResult ::
  "('R \<Rightarrow> 'R \<Rightarrow> 'R) \<Rightarrow> 'e atomicErr \<Rightarrow> 'R list \<Rightarrow> 'e option \<Rightarrow> ('R::zero) \<times> 'e option" where
  "CollectResult combiner aE resultValues ctxErr =
     (if err aE \<noteq> None then (0, err aE)
      else (foldl (\<lambda>result rv. combiner rv result) 0 resultValues, ctxErr))"

definition emptyLatch :: "'e atomicErr" where
  "emptyLatch = \<lparr>err = None\<rparr>"

definition latchAll :: "'e option list \<Rightarrow> 'e atomicErr \<Rightarrow> 'e atomicErr" where
  "latchAll es aE = foldl (\<lambda>a e. addError e a) aE es"

fun firstError :: "'e option list \<Rightarrow> 'e option" where
  "firstError [] = None"
| "firstError (None # es) = firstError es"
| "firstError (Some e # es) = Some e"

text \<open>
  A run of \<open>Collect\<close>, as far as the holder is concerned. The mutex serialises the
  \<open>addError\<close> calls of the searchers and of the transform workers. The goroutine of
  \<open>Collect\<close> reads \<open>aE.err\<close> once, without the mutex, when it finds the result channel
  closed (line 745). That channel is closed as soon as the accumulate workers have returned,
  and on a cancelled context they return at once (pool.go, lines 93-94), while a searcher
  or a transformer that is inside its call goes on and may still call \<open>addError\<close>:
  \<open>fWg.Wait()\<close> comes after the read and waits for the searchers only, nothing waits for
  the transform workers. So a run is given by the errors offered before the read
  (\<open>offeredBefore\<close>, in mutex order) and those offered after it (\<open>offeredAfter\<close>); it
  yields what \<open>Collect\<close> returns and the holder as the workers leave it.
\<close>

definition Collect ::
  "('R \<Rightarrow> 'R \<Rightarrow> 'R) \<Rightarrow> 'e option list \<Rightarrow> 'e option list \<Rightarrow> 'R list \<Rightarrow> 'e option \<Rightarrow>
     (('R::zero) \<times> 'e option) \<times> 'e atomicErr" where
  "Collect combiner offeredBefore offeredAfter resultValues ctxErr =
     (let aE = latchAll offeredBefore emptyLatch
      in (CollectResult combiner aE resultValues ctxErr, latchAll offeredAfter aE))"

subsection \<open>Concrete callables, files and decoders\<close>

text \<open>A record type of two integers, a Go struct or array \<open>[2]int\<close>, with its zero value.\<close>

datatype intPair = IntPair int int

instantiation intPair :: zero
begin
definition zero_intPair_def: "0 = IntPair 0 0"
instance ..
end

definition panicsWithText ::
  "string \<Rightarrow> string atomicErr \<Rightarrow> (int, string, string) outcome \<times> string atomicErr" where
  "panicsWithText arg aE = (Panics (OtherPayload ''not an error value''), aE)"

definition panicsWithError ::
  "string \<Rightarrow> string atomicErr \<Rightarrow> (int, string, string) outcome \<times> string atomicErr" where
  "panicsWithError arg aE = (Panics (ErrorPayload ''disk failure''), aE)"

definition openMissing :: "string \<Rightarrow> string option \<times> string goerror option" where
  "openMissing path = (None, Some (Other ''open: no such file''))"

definition openOk :: "string \<Rightarrow> string option \<times> string goerror option" where
  "openOk path = (Some path, None)"

definition readEOF :: "string \<Rightarrow> nat \<Rightarrow> string \<times> string goerror option" where
  "readEOF file n = ([], Some (Other ''EOF''))"

definition readPair :: "string \<Rightarrow> nat \<Rightarrow> string \<times> string goerror option" where
  "readPair file n = (take n ''[1,true]'', None)"

text \<open>What \<open>json.Unmarshal\<close> does with \<open>[1,true]\<close> and a target of two integers: it stores
  the first element, skips the second and reports the type error.\<close>

definition decodePair :: "string \<Rightarrow> intPair \<Rightarrow> intPair \<times> string goerror option" where
  "decodePair content target =
     (if content = ''[1,true]''
      then (case target of IntPair a b \<Rightarrow>
              (IntPair 1 b, Some (Other ''json: cannot unmarshal bool into Go value of type int'')))
      else (target, Some (Other ''invalid character'')))"

section \<open>Properties of the cache\<close>

text \<open>
  C3 (fails on the code). The claim: for a key in the cache, \<open>GetKeyFrequency\<close> is one plus
  the number of successful \<open>Get\<close> and overwriting \<open>Put\<close> calls since the key was
  inserted, also when the key came in by an eviction that reused an entry of frequency
  above one. On a cache of capacity 1, after \<open>Put 1\<close>, \<open>Get 1\<close>, \<open>Put 2\<close> the key 2 has
  never been touched since its insertion, and the code reports frequency 2: the eviction
  relabels the group to frequency 1 and leaves the entry's own frequency field at 2.
\<close>

theorem evicting_put_keeps_old_frequency:
  "map_sum id (frequencyOf 2)
     (afterCalls 1 [CallPut (1::int) (1::int), CallGet 1, CallPut 2 2]) = Inr (2, None)"
  by code_simp

text \<open>
  C4 (fails on the code). The claim: after every public operation each active group with
  an entry is the group the frequency index gives for its frequency, and every entry of
  the group carries the group's frequency. After the same three calls the only group has
  frequency 1 and the index maps 1 to it, but its entry carries frequency 2.
\<close>

theorem evicting_put_splits_group_and_entry_frequency:
  "map_sum id groupFrequencies
     (afterCalls 1 [CallPut (1::int) (1::int), CallGet 1, CallPut 2 2]) =
   Inr [(1, Some 0, 0, [2])]"
  by code_simp

text \<open>
  C5 (fails on the code). The claim: on a cache of capacity 0, \<open>Put\<close> is a no-op that
  returns normally. \<open>New\<close> accepts capacity 0, and the first \<open>Put\<close> finds size equal to
  capacity, takes the eviction path and calls \<open>Last\<close> on the nil list of groups: it
  panics.
\<close>

theorem Put_on_capacity_zero_panics:
  "New [0] = Inr (emptyCache 0 :: ('k::zero, 'v::zero) cacheImpl) \<and>
   Put k v (emptyCache 0 :: ('k, 'v) cacheImpl) = Inl NilDereference"
  by (simp add: New_def Put_def emptyCache_def)

text \<open>
  C6 (fails on the code). The claim: construction panics exactly when it is given a
  negative capacity or more than one capacity value. Given the two values 3 and 7 the
  code does not panic: it returns a cache of capacity 3 and ignores the 7.
\<close>

theorem New_accepts_two_capacities:
  "(New [3, 7] :: abort + (int, int) cacheImpl) = Inr (emptyCache 3) \<and>
   fst (Capacity (emptyCache 3 :: (int, int) cacheImpl)) = 3"
  by (simp add: New_def Capacity_def emptyCache_def)

text \<open>
  C10. \<open>GetKeyFrequency\<close> leaves the cache as it found it, whether or not the key is
  present: no frequency, group or order changes.
\<close>

theorem GetKeyFrequency_leaves_cache_unchanged:
  "snd (GetKeyFrequency key l) = l"
  by (simp add: GetKeyFrequency_def split: option.split)

section \<open>Every operation keeps the invariant\<close>






















































































section \<open>Eviction and iteration order\<close>
















section \<open>Properties of the crawler\<close>

lemma latchAll_full: "err aE \<noteq> None \<Longrightarrow> latchAll es aE = aE"
  unfolding latchAll_def by (induction es) (auto simp: addError_def)

lemma latchAll_first: "err (latchAll es emptyLatch) = firstError es"
proof (induction es rule: firstError.induct)
  case 1
  show ?case by (simp add: latchAll_def emptyLatch_def)
next
  case (2 es)
  have "addError None emptyLatch = (emptyLatch :: 'a atomicErr)"
    by (simp add: addError_def emptyLatch_def)
  then show ?case using 2 by (simp add: latchAll_def)
next
  case (3 e es)
  have "err (addError (Some e) emptyLatch) \<noteq> None"
    by (simp add: addError_def emptyLatch_def)
  from latchAll_full[OF this, of es] show ?case
    by (simp add: latchAll_def addError_def emptyLatch_def)
qed

lemma addError_latched: "addError x (addError (Some e) a) = addError (Some e) a"
  by (simp add: addError_def)

lemma Collect_result_selection:
  "err (latchAll es emptyLatch) = firstError es \<and>
   CollectResult combiner (latchAll es emptyLatch) resultValues ctxErr =
     (case firstError es of
        Some e \<Rightarrow> (0, Some e)
      | None \<Rightarrow> (foldl (\<lambda>result rv. combiner rv result) 0 resultValues, ctxErr))"
  by (simp add: CollectResult_def latchAll_first split: option.split)

lemma latchAll_append: "latchAll (es @ fs) aE = latchAll fs (latchAll es aE)"
  by (simp add: latchAll_def)

lemma Collect_returns_latch_at_read:
  "fst (Collect combiner offeredBefore offeredAfter resultValues ctxErr) =
     (case firstError offeredBefore of
        Some e \<Rightarrow> (0, Some e)
      | None \<Rightarrow> (foldl (\<lambda>result rv. combiner rv result) 0 resultValues, ctxErr)) \<and>
   err (snd (Collect combiner offeredBefore offeredAfter resultValues ctxErr)) =
     firstError (offeredBefore @ offeredAfter)"
  unfolding Collect_def Let_def fst_conv snd_conv
  using Collect_result_selection[of offeredBefore combiner resultValues ctxErr]
    latchAll_first[of "offeredBefore @ offeredAfter"]
  by (simp add: latchAll_append)

text \<open>
  C7 (fails on the code). The claim: whenever an error was latched during the run,
  \<open>Collect\<close> returns the zero result with the first latched error. The run: the context
  is cancelled while a searcher is inside \<open>ReadDir\<close>; the accumulate workers return, the
  result channel is closed with no partial result, \<open>Collect\<close> reads an empty holder and
  waits in \<open>fWg.Wait()\<close>; \<open>ReadDir\<close> then fails and the searcher latches its error.
  \<open>Collect\<close> returns the zero result with \<open>ctx.Err()\<close>, not with the latched error,
  although the holder has kept that error since before \<open>Collect\<close> returned.
\<close>

theorem Collect_misses_error_latched_after_read:
  "Collect (+) [] [Some (Other ''permission denied'')] [] (Some (Other ''context canceled'')) =
     ((0::int, Some (Other ''context canceled'')), \<lparr>err = Some (Other ''permission denied'')\<rparr>)"
  by (simp add: Collect_def CollectResult_def latchAll_def addError_def emptyLatch_def)

text \<open>
  C8 (as stated, fails on the code). The claim: a panic whose payload is not an error
  propagates out of the wrapped call. The deferred function calls \<open>recover\<close> for every
  panic and only tests the payload afterwards, so such a panic is stopped too: the
  wrapped call returns the zero value and the holder is left alone.
\<close>

theorem protect_swallows_other_payload:
  "protect panicsWithText ''dir'' emptyLatch = (Returns 0, emptyLatch)"
  by (simp add: protect_def panicsWithText_def)

text \<open>
  C8 (amended). A panic with an error payload is recovered, the error is offered to the
  holder and the wrapped call returns the zero value; a panic with any other payload is
  recovered as well, nothing is offered to the holder and the wrapped call returns the
  zero value. The wrapped call always returns.
\<close>

theorem protect_recovers_every_panic:
  "(fn1 arg1 aE1 = (Panics (ErrorPayload e), a1) \<longrightarrow>
      protect fn1 arg1 aE1 = (Returns 0, addError (Some e) a1)) \<and>
   (fn2 arg2 aE2 = (Panics (OtherPayload p), a2) \<longrightarrow>
      protect fn2 arg2 aE2 = (Returns 0, a2)) \<and>
   (\<exists>r a. protect fn3 arg3 aE3 = (Returns r, a))"
  by (auto simp: protect_def split: prod.splits outcome.splits payload.splits)

theorem protect_recovers_every_panic_witness:
  "panicsWithError ''f'' emptyLatch = (Panics (ErrorPayload ''disk failure''), emptyLatch) \<and>
   protect panicsWithError ''f'' emptyLatch = (Returns 0, \<lparr>err = Some ''disk failure''\<rparr>) \<and>
   panicsWithText ''f'' emptyLatch = (Panics (OtherPayload ''not an error value''), emptyLatch) \<and>
   protect panicsWithText ''f'' emptyLatch = (Returns 0, emptyLatch)"
  using protect_recovers_every_panic [of panicsWithError "''f''" emptyLatch "''disk failure''" emptyLatch
      panicsWithText "''f''" emptyLatch "''not an error value''" emptyLatch
      panicsWithText "''f''" emptyLatch]
  by (simp add: panicsWithError_def panicsWithText_def addError_def emptyLatch_def)

text \<open>
  C9 (as stated, fails on the code). The claim: when JSON decoding of a file fails, the
  zero record is emitted. The code emits the decode target as the decoder left it. For
  the content \<open>[1,true]\<close> and a record of two integers the decoder stores the 1 before it
  meets the type error, and the record emitted is \<open>(1, 0)\<close>, not the zero record.
\<close>

theorem transform_decode_error_emits_partial_record:
  "protect (readFile openOk readPair decodePair) ''a.json'' emptyLatch =
     ((Returns (IntPair 1 0) :: (intPair, string goerror, string) outcome),
      \<lparr>err = Some (Other ''json: cannot unmarshal bool into Go value of type int'')\<rparr>) \<and>
   IntPair 1 0 \<noteq> 0"
  by (simp add: protect_def readFile_def openOk_def readPair_def decodePair_def bufferSize_def
        addError_def emptyLatch_def zero_intPair_def)

text \<open>
  C9 (amended). For a file whose opening fails, or whose read fails, the error is offered
  to the holder and the zero record is emitted. For a file whose decoding fails, the
  error is offered to the holder and the record emitted is the decode target as the
  decoder left it. In each case the wrapped call returns, so the worker goes on.
\<close>

theorem transform_file_errors_latched:
  "(fsOpen1 c1 = (f1, Some e1) \<longrightarrow>
      protect (readFile fsOpen1 fileRead1 jsonUnmarshal1) c1 aE1 = (Returns 0, addError (Some e1) aE1)) \<and>
   (fsOpen2 c2 = (Some file2, None) \<and> fileRead2 file2 bufferSize = (content2, Some e2) \<longrightarrow>
      protect (readFile fsOpen2 fileRead2 jsonUnmarshal2) c2 aE2 = (Returns 0, addError (Some e2) aE2)) \<and>
   (fsOpen3 c3 = (Some file3, None) \<and> fileRead3 file3 bufferSize = (content3, None) \<and>
    jsonUnmarshal3 content3 0 = (t3, Some e3) \<longrightarrow>
      protect (readFile fsOpen3 fileRead3 jsonUnmarshal3) c3 aE3 = (Returns t3, addError (Some e3) aE3))"
  by (auto simp: protect_def readFile_def addError_latched split: option.splits)

theorem transform_file_errors_latched_witness:
  "protect (readFile openMissing readEOF decodePair) ''a.json'' emptyLatch =
     ((Returns 0 :: (intPair, string goerror, string) outcome),
      \<lparr>err = Some (Other ''open: no such file'')\<rparr>) \<and>
   protect (readFile openOk readEOF decodePair) ''a.json'' emptyLatch =
     ((Returns 0 :: (intPair, string goerror, string) outcome), \<lparr>err = Some (Other ''EOF'')\<rparr>) \<and>
   protect (readFile openOk readPair decodePair) ''a.json'' emptyLatch =
     ((Returns (IntPair 1 0) :: (intPair, string goerror, string) outcome),
      \<lparr>err = Some (Other ''json: cannot unmarshal bool into Go value of type int'')\<rparr>)"
  using transform_file_errors_latched [of openMissing "''a.json''" None "Other ''open: no such file''"
      readEOF decodePair emptyLatch
      openOk "''a.json''" "''a.json''" readEOF "[]" "Other ''EOF''" decodePair emptyLatch
      openOk "''a.json''" "''a.json''" readPair "''[1,true]''"
      decodePair "IntPair 1 0" "Other ''json: cannot unmarshal bool into Go value of type int''" emptyLatch,
      where ?'d = string and ?'h = string and ?'l = string]
  by (simp add: openMissing_def openOk_def readEOF_def readPair_def decodePair_def bufferSize_def
        addError_def emptyLatch_def zero_intPair_def)

end
